theory Spec2Isabelle
  imports Main "HOL-Library.Char_ord" "HOL-Library.List_Lexorder"
begin

section \<open>Regular expressions of the script\<close>

text \<open>
  The script \<^verbatim>\<open>fix_framer_site.py\<close> finds references with \<^verbatim>\<open>re.compile(...).findall(text)\<close>.
  Its six patterns use literals, single characters from a class, greedy repetition of a
  class (\<^verbatim>\<open>+\<close>, \<^verbatim>\<open>*\<close>), an optional literal, alternation and one capturing group.
  Text is a \<^typ>\<open>string\<close>: a list of code points below 256, ordered by code point as
  Python orders \<^verbatim>\<open>str\<close>.
\<close>

definition dq :: char where
  "dq = CHR 0x22"

definition sq :: char where
  "sq = CHR 0x27"

datatype rx =
    RLit string
  | ROne "char \<Rightarrow> bool"
  | RPlus "char \<Rightarrow> bool"
  | RStar "char \<Rightarrow> bool"
  | ROpt rx
  | RSeq rx rx
  | RAlt rx rx
  | RGrp rx

text \<open>
  A match of a pattern at the start of \<open>s\<close> is the text left after it, with the text of the
  group when the group took part. \<open>ms r s\<close> lists all matches in the order in which a
  backtracking matcher tries them: a greedy repetition tries the longest run first, an
  alternation its left branch first, a sequence every way of its first part in order. The
  matcher's answer is the head of that list.
\<close>

type_synonym mres = "string \<times> string option"

definition run_len :: "(char \<Rightarrow> bool) \<Rightarrow> string \<Rightarrow> nat" where
  "run_len c s = length (takeWhile c s)"

definition keep_cap :: "string option \<Rightarrow> mres \<Rightarrow> mres" where
  "keep_cap c1 m = (fst m, (case snd m of None \<Rightarrow> c1 | Some c \<Rightarrow> Some c))"

primrec ms :: "rx \<Rightarrow> string \<Rightarrow> mres list" where
  "ms (RLit l) s = (if take (length l) s = l then [(drop (length l) s, None)] else [])"
| "ms (ROne c) s = (case s of [] \<Rightarrow> [] | x # t \<Rightarrow> if c x then [(t, None)] else [])"
| "ms (RPlus c) s = map (\<lambda>n. (drop n s, None)) (rev [1..<Suc (run_len c s)])"
| "ms (RStar c) s = map (\<lambda>n. (drop n s, None)) (rev [0..<Suc (run_len c s)])"
| "ms (ROpt r) s = ms r s @ [(s, None)]"
| "ms (RSeq a b) s = concat (map (\<lambda>m1. map (keep_cap (snd m1)) (ms b (fst m1))) (ms a s))"
| "ms (RAlt a b) s = ms a s @ ms b s"
| "ms (RGrp r) s = map (\<lambda>m. (fst m, Some (take (length s - length (fst m)) s))) (ms r s)"

definition match_here :: "rx \<Rightarrow> string \<Rightarrow> mres option" where
  "match_here r s = (case ms r s of [] \<Rightarrow> None | m # _ \<Rightarrow> Some m)"

definition group1 :: "mres \<Rightarrow> string" where
  "group1 m = (case snd m of None \<Rightarrow> [] | Some c \<Rightarrow> c)"

text \<open>
  \<^verbatim>\<open>findall\<close> scans from the left: the leftmost match is taken, its group is reported and
  the scan goes on where the match ended. None of the script's patterns matches the empty
  text; the branch for an empty match (report it, move one character on) only makes the
  function total.
\<close>

function findall :: "rx \<Rightarrow> string \<Rightarrow> string list" where
  "findall r s =
     (case match_here r s of
        Some m \<Rightarrow>
          (if length (fst m) < length s then group1 m # findall r (fst m)
           else (case s of [] \<Rightarrow> [group1 m] | _ # t \<Rightarrow> group1 m # findall r t))
      | None \<Rightarrow> (case s of [] \<Rightarrow> [] | _ # t \<Rightarrow> findall r t))"
  by pat_completeness auto
termination
  by (relation "measure (\<lambda>(r, s). length s)") auto

fun cat :: "rx list \<Rightarrow> rx" where
  "cat [] = RLit []"
| "cat [r] = r"
| "cat (r # rs) = RSeq r (cat rs)"

fun alts :: "rx list \<Rightarrow> rx" where
  "alts [] = RLit []"
| "alts [r] = r"
| "alts (r # rs) = RAlt r (alts rs)"

subsection \<open>Character classes\<close>

definition id_char :: "char \<Rightarrow> bool" where
  \<comment> \<open>\<^verbatim>\<open>[A-Za-z0-9_-]\<close>\<close>
  "id_char c = (CHR ''A'' \<le> c \<and> c \<le> CHR ''Z'' \<or> CHR ''a'' \<le> c \<and> c \<le> CHR ''z''
      \<or> CHR ''0'' \<le> c \<and> c \<le> CHR ''9'' \<or> c = CHR ''_'' \<or> c = CHR ''-'')"

definition asset_char :: "char \<Rightarrow> bool" where
  \<comment> \<open>\<^verbatim>\<open>[A-Za-z0-9_\-\.]\<close>\<close>
  "asset_char c = (CHR ''A'' \<le> c \<and> c \<le> CHR ''Z'' \<or> CHR ''a'' \<le> c \<and> c \<le> CHR ''z''
      \<or> CHR ''0'' \<le> c \<and> c \<le> CHR ''9'' \<or> c = CHR ''_'' \<or> c = CHR ''-'' \<or> c = CHR ''.'')"

definition quote_char :: "char \<Rightarrow> bool" where
  \<comment> \<open>the class of the two quote characters\<close>
  "quote_char c = (c = dq \<or> c = sq)"

definition not_quote :: "char \<Rightarrow> bool" where
  \<comment> \<open>the negated class of the two quote characters\<close>
  "not_quote c = (c \<noteq> dq \<and> c \<noteq> sq)"

definition not_quote_gt :: "char \<Rightarrow> bool" where
  \<comment> \<open>the negated class of the two quote characters and \<^verbatim>\<open>>\<close>\<close>
  "not_quote_gt c = (c \<noteq> dq \<and> c \<noteq> sq \<and> c \<noteq> CHR ''>'')"

definition space_char :: "char \<Rightarrow> bool" where
  \<comment> \<open>\<^verbatim>\<open>\s\<close> on a \<^verbatim>\<open>str\<close> pattern: the code points below 256 for which \<^verbatim>\<open>str.isspace\<close> holds\<close>
  "space_char c = (c \<in> set [CHR 0x09, CHR 0x0A, CHR 0x0B, CHR 0x0C, CHR 0x0D,
      CHR 0x1C, CHR 0x1D, CHR 0x1E, CHR 0x1F, CHR 0x20, CHR 0x85, CHR 0xA0])"

subsection \<open>The six patterns\<close>

definition FRAMER_CDN :: string where
  "FRAMER_CDN = ''https://framerusercontent.com''"

definition pattern_url :: rx where
  \<comment> \<open>\<^verbatim>\<open>framerusercontent\.com/sites/([A-Za-z0-9_-]+)\<close>\<close>
  "pattern_url = cat [RLit ''framerusercontent.com/sites/'', RGrp (RPlus id_char)]"

definition pattern_local :: rx where
  \<comment> \<open>\<^verbatim>\<open>sites/([A-Za-z0-9_-]+)/searchIndex-[^"'>]+\.json\<close>\<close>
  "pattern_local = cat [RLit ''sites/'', RGrp (RPlus id_char), RLit ''/searchIndex-'',
      RPlus not_quote_gt, RLit ''.json'']"

definition dyn_import :: rx where
  \<comment> \<open>\<^verbatim>\<open>import\(\s*["']\./([^"']+\.mjs)["']\s*\)\<close>\<close>
  "dyn_import = cat [RLit ''import('', RStar space_char, ROne quote_char, RLit ''./'',
      RGrp (cat [RPlus not_quote, RLit ''.mjs'']), ROne quote_char, RStar space_char,
      RLit '')'']"

definition static_import :: rx where
  \<comment> \<open>\<^verbatim>\<open>from\s+["']\./([^"']+\.mjs)["']\<close>\<close>
  "static_import = cat [RLit ''from'', RPlus space_char, ROne quote_char, RLit ''./'',
      RGrp (cat [RPlus not_quote, RLit ''.mjs'']), ROne quote_char]"

definition asset_ext :: rx where
  \<comment> \<open>\<^verbatim>\<open>(?:png|jpe?g|webp|gif|mp4|svg|woff2?)\<close>\<close>
  "asset_ext = alts [RLit ''png'', cat [RLit ''jp'', ROpt (RLit ''e''), RLit ''g''],
      RLit ''webp'', RLit ''gif'', RLit ''mp4'', RLit ''svg'',
      cat [RLit ''woff'', ROpt (RLit ''2'')]]"

definition asset_pattern :: rx where
  \<comment> \<open>\<^verbatim>\<open>https://framerusercontent\.com/assets/([A-Za-z0-9_\-\.]+\.(?:png|...|woff2?))\<close>\<close>
  "asset_pattern = cat [RLit ''https://framerusercontent.com/assets/'',
      RGrp (cat [RPlus asset_char, RLit ''.'', asset_ext])]"

definition index_pattern :: "string \<Rightarrow> rx" where
  \<comment> \<open>\<^verbatim>\<open>https://framerusercontent\.com/sites/\<close> + \<^verbatim>\<open>re.escape(site_id)\<close> +
      \<^verbatim>\<open>/(searchIndex-[^"'>]+\.json)\<close>; the escaped identifier matches itself\<close>
  "index_pattern site_id = cat [RLit ''https://framerusercontent.com/sites/'', RLit site_id,
      RLit ''/'', RGrp (cat [RLit ''searchIndex-'', RPlus not_quote_gt, RLit ''.json''])]"

section \<open>Paths and the file system\<close>

text \<open>
  A path is the list of its components below the file system's root \<^verbatim>\<open>/\<close> (POSIX). The
  operator \<^verbatim>\<open>/\<close> of \<^verbatim>\<open>pathlib\<close> splits its right operand at the separators, drops empty
  components and \<^verbatim>\<open>.\<close>, keeps \<^verbatim>\<open>..\<close>, and starts again from the root when the operand is
  absolute.
\<close>

type_synonym path = "string list"

fun split_on :: "char \<Rightarrow> string \<Rightarrow> string list" where
  "split_on d [] = [[]]"
| "split_on d (c # cs) =
     (if c = d then [] # split_on d cs
      else (case split_on d cs of [] \<Rightarrow> [[c]] | p # ps \<Rightarrow> (c # p) # ps))"

definition parts :: "string \<Rightarrow> string list" where
  "parts s = filter (\<lambda>p. p \<noteq> [] \<and> p \<noteq> ''.'') (split_on CHR ''/'' s)"

definition pjoin :: "path \<Rightarrow> string \<Rightarrow> path" where
  "pjoin p s = (case s of [] \<Rightarrow> p | c # _ \<Rightarrow> if c = CHR ''/'' then parts s else p @ parts s)"

definition parent :: "path \<Rightarrow> path" where
  "parent p = butlast p"

definition name :: "path \<Rightarrow> string" where
  "name p = (if p = [] then [] else last p)"

definition py_suffix :: "string \<Rightarrow> string" where
  \<comment> \<open>\<^verbatim>\<open>PurePath.suffix\<close>: from the last dot of the name on, unless that dot is the first or
      the last character, or there is none\<close>
  "py_suffix n =
     (let r = takeWhile (\<lambda>c. c \<noteq> CHR ''.'') (rev n) in
      if length r = length n \<or> r = [] \<or> Suc (length r) = length n then []
      else CHR ''.'' # rev r)"

definition lower_char :: "char \<Rightarrow> char" where
  "lower_char c =
     (case map_of (zip ''ABCDEFGHIJKLMNOPQRSTUVWXYZ'' ''abcdefghijklmnopqrstuvwxyz'') c of
        None \<Rightarrow> c | Some l \<Rightarrow> l)"

definition lower :: "string \<Rightarrow> string" where
  "lower s = map lower_char s"

text \<open>
  The file system is a finite table from absolute paths to nodes; the root directory is
  always there. A regular file holds its decoded text, or \<open>None\<close> when reading it raises
  (the script skips such a file). There are no symbolic links. An entry counts only when
  it can be reached: \<open>resolve\<close> walks a path as the operating system does, through
  directories only, \<^verbatim>\<open>..\<close> leading to the parent.
\<close>

datatype node = Dir | File "string option"

type_synonym fs = "(path \<times> node) list"

definition kind :: "fs \<Rightarrow> path \<Rightarrow> node option" where
  "kind f p = (if p = [] then Some Dir else map_of f p)"

fun walk :: "fs \<Rightarrow> path \<Rightarrow> string list \<Rightarrow> path option" where
  "walk f cur [] = (if kind f cur = None then None else Some cur)"
| "walk f cur (c # cs) =
     (if kind f cur = Some Dir
      then (if c = ''..'' then walk f (butlast cur) cs else walk f (cur @ [c]) cs)
      else None)"

definition resolve :: "fs \<Rightarrow> path \<Rightarrow> path option" where
  "resolve f p = walk f [] p"

definition path_exists :: "fs \<Rightarrow> path \<Rightarrow> bool" where
  "path_exists f p = (resolve f p \<noteq> None)"

definition is_dir :: "fs \<Rightarrow> path \<Rightarrow> bool" where
  "is_dir f p = (case resolve f p of None \<Rightarrow> False | Some q \<Rightarrow> kind f q = Some Dir)"

definition is_file :: "fs \<Rightarrow> path \<Rightarrow> bool" where
  "is_file f p =
     (case resolve f p of None \<Rightarrow> False
      | Some q \<Rightarrow> (case kind f q of Some (File _) \<Rightarrow> True | _ \<Rightarrow> False))"

definition read_text :: "fs \<Rightarrow> path \<Rightarrow> string option" where
  \<comment> \<open>\<open>None\<close>: \<^verbatim>\<open>read_text\<close> raises (a directory, a missing or an unreadable file)\<close>
  "read_text f p =
     (case resolve f p of None \<Rightarrow> None
      | Some q \<Rightarrow> (case kind f q of Some (File t) \<Rightarrow> t | _ \<Rightarrow> None))"

definition reachable :: "fs \<Rightarrow> path \<Rightarrow> bool" where
  "reachable f q = (resolve f q = Some q)"

definition rglob :: "fs \<Rightarrow> path \<Rightarrow> path list" where
  \<comment> \<open>\<^verbatim>\<open>root.rglob("*")\<close>: every entry strictly below \<open>root\<close>\<close>
  "rglob f root =
     filter (\<lambda>q. length root < length q \<and> take (length root) q = root \<and> reachable f q)
       (map fst f)"

definition glob_mjs :: "fs \<Rightarrow> path \<Rightarrow> path list" where
  \<comment> \<open>\<^verbatim>\<open>site_dir.glob("*.mjs")\<close>: the entries directly inside the directory whose name ends
      in \<^verbatim>\<open>.mjs\<close>\<close>
  "glob_mjs f d =
     (case resolve f d of None \<Rightarrow> []
      | Some q \<Rightarrow>
          map (\<lambda>e. d @ [last e])
            (filter (\<lambda>e. e \<noteq> [] \<and> butlast e = q \<and> reachable f e
                        \<and> length (last e) \<ge> 4
                        \<and> drop (length (last e) - 4) (last e) = ''.mjs'')
               (map fst f)))"

section \<open>Detection\<close>

text \<open>
  The three scans over the whole tree share their loop header: every entry below the root
  that is a regular file, whose lower-cased suffix is in the set of the scan, and whose
  text can be read. A Python \<^verbatim>\<open>set\<close> of strings is kept as the list of what was added to
  it; the script only ever sorts such a set or tests it for emptiness.
\<close>

definition scan_texts :: "fs \<Rightarrow> path \<Rightarrow> string list \<Rightarrow> string list" where
  "scan_texts f root exts =
     concat (map (\<lambda>q.
        if \<not> is_file f q then []
        else if lower (py_suffix (name q)) \<notin> set exts then []
        else (case read_text f q of None \<Rightarrow> [] | Some t \<Rightarrow> [t]))
      (rglob f root))"

definition py_sorted :: "string list \<Rightarrow> string list" where
  \<comment> \<open>\<^verbatim>\<open>sorted(a_set)\<close>\<close>
  "py_sorted xs = sort (remdups xs)"

definition find_site_ids :: "fs \<Rightarrow> path \<Rightarrow> string list" where
  "find_site_ids f root =
     concat (map (\<lambda>t. findall pattern_url t @ findall pattern_local t)
       (scan_texts f root [''.html'', ''.htm'', ''.js'', ''.mjs'', ''.json'']))"

datatype log_msg =
    Warn_site_dir string
  | Get string
  | Ok_saved path
  | Err_http nat string
  | Err_url string
  | Err_fail string
  | Fatal_root path
  | Info_root path
  | Warn_no_site_ids
  | Info_site_ids "string list"
  | Analyse_site string
  | Miss_mjs
  | Ok_mjs
  | Miss_indexes
  | Ok_indexes
  | Item string
  | Analyse_assets
  | Miss_assets
  | Ok_assets
  | Finished
  | Note_dry_run
  | Note_downloaded

definition site_dir_of :: "path \<Rightarrow> string \<Rightarrow> path" where
  \<comment> \<open>\<^verbatim>\<open>root / "sites" / site_id\<close>\<close>
  "site_dir_of root site_id = pjoin (pjoin root ''sites'') site_id"

definition find_missing_mjs_for_site :: "fs \<Rightarrow> path \<Rightarrow> string \<Rightarrow> string list \<times> log_msg list" where
  "find_missing_mjs_for_site f root site_id =
     (let site_dir = site_dir_of root site_id in
      if \<not> is_dir f site_dir then ([], [Warn_site_dir site_id])
      else
        (py_sorted (concat (map (\<lambda>mjs.
            case read_text f mjs of
              None \<Rightarrow> []
            | Some t \<Rightarrow>
                filter (\<lambda>rel. \<not> path_exists f (pjoin site_dir rel)) (findall dyn_import t)
                @ filter (\<lambda>rel. \<not> path_exists f (pjoin site_dir rel)) (findall static_import t))
          (glob_mjs f site_dir))), []))"

definition find_missing_assets :: "fs \<Rightarrow> path \<Rightarrow> string list" where
  "find_missing_assets f root =
     (let asset_names = concat (map (findall asset_pattern)
            (scan_texts f root [''.html'', ''.htm'', ''.js'', ''.mjs'', ''.css'']))
      in filter (\<lambda>n. \<not> path_exists f (pjoin (pjoin root ''assets'') n)
                    \<and> \<not> path_exists f (pjoin (pjoin root ''images'') n))
           (py_sorted asset_names))"

definition find_missing_search_indexes :: "fs \<Rightarrow> path \<Rightarrow> string \<Rightarrow> string list" where
  "find_missing_search_indexes f root site_id =
     (let indexes = concat (map (findall (index_pattern site_id))
            (scan_texts f root [''.html'', ''.htm'', ''.js'', ''.mjs'']));
          site_dir = site_dir_of root site_id
      in filter (\<lambda>n. \<not> path_exists f (pjoin site_dir n)) (py_sorted indexes))"

section \<open>Remediation\<close>

text \<open>
  \<^verbatim>\<open>dest.parent.mkdir(parents=True, exist_ok=True)\<close> creates, from the top, each directory
  of the path that is not there, and raises when a component is there and is not a
  directory. \<^verbatim>\<open>urlretrieve(url, dest)\<close> fetches first and opens the destination for writing
  after that; opening a directory, or a name below something that is no directory, raises.
  The network is a function from the URL to what the fetch gives.
\<close>

datatype exn = Mkdir_error path

fun mkdirs :: "fs \<Rightarrow> path \<Rightarrow> string list \<Rightarrow> exn + fs" where
  "mkdirs f cur [] = Inr f"
| "mkdirs f cur (c # cs) =
     (if c = ''..'' then mkdirs f (butlast cur) cs
      else (case kind f (cur @ [c]) of
              None \<Rightarrow> mkdirs ((cur @ [c], Dir) # f) (cur @ [c]) cs
            | Some Dir \<Rightarrow> mkdirs f (cur @ [c]) cs
            | Some (File _) \<Rightarrow> Inl (Mkdir_error (cur @ [c]))))"

definition write_file :: "fs \<Rightarrow> path \<Rightarrow> string \<Rightarrow> fs option" where
  \<comment> \<open>\<open>None\<close>: opening the destination for writing raises\<close>
  "write_file f dest body =
     (if dest = [] \<or> last dest = ''..'' then None
      else (case resolve f (butlast dest) of
              None \<Rightarrow> None
            | Some par \<Rightarrow>
                if kind f par \<noteq> Some Dir then None
                else (case kind f (par @ [last dest]) of
                        Some Dir \<Rightarrow> None
                      | _ \<Rightarrow> Some ((par @ [last dest], File (Some body)) # f))))"

datatype fetch = Body string | Http_error nat | Url_error | Short_body string | Other_error

type_synonym net = "string \<Rightarrow> fetch"

record world =
  files :: fs
  out :: "log_msg list"

definition say :: "log_msg list \<Rightarrow> world \<Rightarrow> world" where
  "say msgs w = w\<lparr>out := out w @ msgs\<rparr>"

definition download_file :: "net \<Rightarrow> string \<Rightarrow> path \<Rightarrow> world \<Rightarrow> exn option \<times> world" where
  "download_file nw url dest w =
     (case mkdirs (files w) [] (parent dest) of
        Inl e \<Rightarrow> (Some e, w)
      | Inr f1 \<Rightarrow>
          (let w1 = say [Get url] (w\<lparr>files := f1\<rparr>) in
           case nw url of
             Body b \<Rightarrow>
               (case write_file f1 dest b of
                  Some f2 \<Rightarrow> (None, say [Ok_saved dest] (w1\<lparr>files := f2\<rparr>))
                | None \<Rightarrow> (None, say [Err_fail url] w1))
           | Http_error code \<Rightarrow> (None, say [Err_http code url] w1)
           | Url_error \<Rightarrow> (None, say [Err_url url] w1)
           | Short_body b \<Rightarrow>
               (case write_file f1 dest b of
                  Some f2 \<Rightarrow> (None, say [Err_url url] (w1\<lparr>files := f2\<rparr>))
                | None \<Rightarrow> (None, say [Err_fail url] w1))
           | Other_error \<Rightarrow> (None, say [Err_fail url] w1)))"

fun download_all :: "net \<Rightarrow> (string \<times> path) list \<Rightarrow> world \<Rightarrow> exn option \<times> world" where
  "download_all nw [] w = (None, w)"
| "download_all nw ((url, dest) # rest) w =
     (case download_file nw url dest w of
        (Some e, w') \<Rightarrow> (Some e, w')
      | (None, w') \<Rightarrow> download_all nw rest w')"

section \<open>The run\<close>

text \<open>
  \<open>arg_root\<close> is the root after \<^verbatim>\<open>Path(args.root).resolve()\<close>; the command line is taken as
  parsed. An exception that nothing catches ends the process with a traceback and exit
  code 1, as \<^verbatim>\<open>sys.exit(1)\<close> does without the traceback.
\<close>

record args =
  arg_root :: path
  arg_dry_run :: bool

datatype outcome = Completed | Sys_exit nat | Uncaught exn

fun exit_code :: "outcome \<Rightarrow> nat" where
  "exit_code Completed = 0"
| "exit_code (Sys_exit n) = n"
| "exit_code (Uncaught e) = 1"

definition site_url :: "string \<Rightarrow> string \<Rightarrow> string" where
  \<comment> \<open>\<^verbatim>\<open>f"{FRAMER_CDN}/sites/{site_id}/{f}"\<close>\<close>
  "site_url site_id x = FRAMER_CDN @ ''/sites/'' @ site_id @ ''/'' @ x"

definition site_dest :: "path \<Rightarrow> string \<Rightarrow> string \<Rightarrow> path" where
  \<comment> \<open>\<^verbatim>\<open>root / "sites" / site_id / f\<close>\<close>
  "site_dest root site_id x = pjoin (site_dir_of root site_id) x"

definition asset_url :: "string \<Rightarrow> string" where
  \<comment> \<open>\<^verbatim>\<open>f"{FRAMER_CDN}/assets/{name}"\<close>\<close>
  "asset_url n = FRAMER_CDN @ ''/assets/'' @ n"

definition asset_dest :: "path \<Rightarrow> string \<Rightarrow> path" where
  \<comment> \<open>\<^verbatim>\<open>root / "assets" / name\<close>\<close>
  "asset_dest root n = pjoin (pjoin root ''assets'') n"

definition site_step :: "bool \<Rightarrow> net \<Rightarrow> path \<Rightarrow> string \<Rightarrow> world \<Rightarrow> exn option \<times> world" where
  \<comment> \<open>the body of \<^verbatim>\<open>for site_id in sorted(site_ids)\<close>\<close>
  "site_step dry nw root site_id w =
     (let w1 = say [Analyse_site site_id] w;
          (missing_mjs, warns) = find_missing_mjs_for_site (files w1) root site_id;
          w2 = say warns w1;
          w3 = say (if missing_mjs \<noteq> [] then Miss_mjs # map Item missing_mjs else [Ok_mjs]) w2;
          missing_indexes = find_missing_search_indexes (files w3) root site_id;
          w4 = say (if missing_indexes \<noteq> [] then Miss_indexes # map Item missing_indexes
                    else [Ok_indexes]) w3
      in if \<not> dry then
           (case download_all nw
                   (map (\<lambda>x. (site_url site_id x, site_dest root site_id x)) missing_mjs) w4 of
              (Some e, w5) \<Rightarrow> (Some e, w5)
            | (None, w5) \<Rightarrow>
                download_all nw
                  (map (\<lambda>x. (site_url site_id x, site_dest root site_id x)) missing_indexes) w5)
         else (None, w4))"

fun site_loop :: "bool \<Rightarrow> net \<Rightarrow> path \<Rightarrow> string list \<Rightarrow> world \<Rightarrow> exn option \<times> world" where
  "site_loop dry nw root [] w = (None, w)"
| "site_loop dry nw root (site_id # rest) w =
     (case site_step dry nw root site_id w of
        (Some e, w') \<Rightarrow> (Some e, w')
      | (None, w') \<Rightarrow> site_loop dry nw root rest w')"

definition assets_step :: "bool \<Rightarrow> net \<Rightarrow> path \<Rightarrow> world \<Rightarrow> exn option \<times> world" where
  \<comment> \<open>step 3 of \<^verbatim>\<open>main\<close>\<close>
  "assets_step dry nw root w =
     (let w1 = say [Analyse_assets] w;
          missing_assets = find_missing_assets (files w1) root;
          w2 = say (if missing_assets \<noteq> [] then Miss_assets # map Item missing_assets
                    else [Ok_assets]) w1
      in if \<not> dry then
           download_all nw (map (\<lambda>n. (asset_url n, asset_dest root n)) missing_assets) w2
         else (None, w2))"

definition main :: "args \<Rightarrow> net \<Rightarrow> fs \<Rightarrow> outcome \<times> world" where
  "main a nw f =
     (let root = arg_root a; dry = arg_dry_run a; w0 = \<lparr>files = f, out = []\<rparr> in
      if \<not> is_dir f root then (Sys_exit 1, say [Fatal_root root] w0)
      else
        (let w1 = say [Info_root root] w0;
             site_ids = find_site_ids (files w1) root;
             w2 = say (if site_ids = [] then [Warn_no_site_ids]
                       else [Info_site_ids (py_sorted site_ids)]) w1
         in case site_loop dry nw root (py_sorted site_ids) w2 of
              (Some e, w3) \<Rightarrow> (Uncaught e, w3)
            | (None, w3) \<Rightarrow>
                (case assets_step dry nw root w3 of
                   (Some e, w4) \<Rightarrow> (Uncaught e, w4)
                 | (None, w4) \<Rightarrow>
                     (Completed,
                      say [Finished, if dry then Note_dry_run else Note_downloaded] w4))))"

section \<open>What a dry run prints\<close>





section \<open>What a match looks like\<close>

text \<open>
  \<open>acc r p cap\<close>: the pattern \<open>r\<close> can consume exactly the text \<open>p\<close>, leaving \<open>cap\<close> as the
  text of its group. It describes the matches without their order.
\<close>

primrec acc :: "rx \<Rightarrow> string \<Rightarrow> string option \<Rightarrow> bool" where
  "acc (RLit l) p cap = (p = l \<and> cap = None)"
| "acc (ROne c) p cap = (\<exists>x. p = [x] \<and> c x \<and> cap = None)"
| "acc (RPlus c) p cap = (p \<noteq> [] \<and> list_all c p \<and> cap = None)"
| "acc (RStar c) p cap = (list_all c p \<and> cap = None)"
| "acc (ROpt r) p cap = (acc r p cap \<or> p = [] \<and> cap = None)"
| "acc (RSeq a b) p cap =
     (\<exists>p1 p2 c1 c2. p = p1 @ p2 \<and> acc a p1 c1 \<and> acc b p2 c2
        \<and> cap = (case c2 of None \<Rightarrow> c1 | Some c \<Rightarrow> Some c))"
| "acc (RAlt a b) p cap = (acc a p cap \<or> acc b p cap)"
| "acc (RGrp r) p cap = (\<exists>c. acc r p c \<and> cap = Some p)"

section \<open>Trees used as examples\<close>

definition fs_page :: "string \<Rightarrow> fs" where
  "fs_page page =
     [([''srv''], Dir),
      ([''srv'', ''index.html''],
         File (Some ''<a href=https://framerusercontent.com/sites/abc123/page.html>'')),
      ([''srv'', ''sites''], Dir),
      ([''srv'', ''sites'', ''abc123''], Dir),
      ([''srv'', ''sites'', ''abc123'', page],
         File (Some (''import { u } from '' @ [dq] @ ''./util.mjs'' @ [dq] @ '';'')))]"

definition fs_assets_file :: fs where
  "fs_assets_file =
     [([''srv''], Dir),
      ([''srv'', ''index.html''],
         File (Some ''<img src=https://framerusercontent.com/assets/logo123.png>'')),
      ([''srv'', ''assets''], File (Some ''''))]"

definition asset_exts :: "string list" where
  "asset_exts = [''png'', ''jpeg'', ''jpg'', ''webp'', ''gif'', ''mp4'', ''svg'', ''woff2'', ''woff'']"


section \<open>Properties of the matcher\<close>

lemma run_len_le: "run_len c s \<le> length s"
  by (simp add: run_len_def length_takeWhile_le)

lemma take_run_all: "n \<le> run_len c s \<Longrightarrow> list_all c (take n s)"
  unfolding run_len_def
proof (induction s arbitrary: n)
  case Nil
  then show ?case by simp
next
  case (Cons a s)
  then show ?case by (cases n) (auto split: if_splits)
qed

lemma set_ms_RStar: "m \<in> set (ms (RStar c) s) \<longleftrightarrow> (\<exists>n. n \<le> run_len c s \<and> m = (drop n s, None))"
  by (auto simp del: upt_Suc simp: less_Suc_eq_le image_iff)

lemma set_ms_RPlus: "m \<in> set (ms (RPlus c) s) \<longleftrightarrow> (\<exists>n. 1 \<le> n \<and> n \<le> run_len c s \<and> m = (drop n s, None))"
  by (auto simp del: upt_Suc simp: less_Suc_eq_le image_iff)

lemma ms_sound: "m \<in> set (ms r s) \<Longrightarrow> \<exists>p. s = p @ fst m \<and> acc r p (snd m)"
proof (induction r arbitrary: s m)
  case (RLit l)
  then show ?case
    by (auto split: if_splits intro!: exI[of _ "take (length l) s"])
      (metis append_take_drop_id)
next
  case (ROne c)
  then show ?case by (auto split: list.splits if_splits)
next
  case (RPlus c)
  then obtain n where n: "1 \<le> n" "n \<le> run_len c s" "m = (drop n s, None)"
    unfolding set_ms_RPlus by blast
  have "n \<le> length s" using n run_len_le[of c s] by linarith
  then have "take n s \<noteq> []" using n by auto
  with n show ?case
    by (intro exI[of _ "take n s"]) (simp add: take_run_all)
next
  case (RStar c)
  then obtain n where n: "n \<le> run_len c s" "m = (drop n s, None)"
    unfolding set_ms_RStar by blast
  with n show ?case
    by (intro exI[of _ "take n s"]) (simp add: take_run_all)
next
  case (ROpt r)
  then show ?case by (cases m) fastforce
next
  case (RSeq a b)
  from RSeq.prems obtain m1 m2 where m1: "m1 \<in> set (ms a s)" and m2: "m2 \<in> set (ms b (fst m1))"
    and m: "m = keep_cap (snd m1) m2" by auto
  from RSeq.IH(1)[OF m1] obtain p1 where p1: "s = p1 @ fst m1" "acc a p1 (snd m1)" by blast
  from RSeq.IH(2)[OF m2] obtain p2 where p2: "fst m1 = p2 @ fst m2" "acc b p2 (snd m2)" by blast
  show ?case
    apply (rule exI[of _ "p1 @ p2"])
    using p1 p2 m by (auto simp: keep_cap_def)
next
  case (RAlt a b)
  then show ?case by (cases m) fastforce
next
  case (RGrp r)
  from RGrp.prems obtain m' where m': "m' \<in> set (ms r s)" and m: "m = (fst m', Some (take (length s - length (fst m')) s))"
    by auto
  from RGrp.IH[OF m'] obtain p where p: "s = p @ fst m'" "acc r p (snd m')" by blast
  then have "take (length s - length (fst m')) s = p" by (metis append_eq_conv_conj diff_add_inverse2 length_append)
  with p m show ?case by auto
qed

lemma findall_captures:
  "x \<in> set (findall r s) \<Longrightarrow> \<exists>s' m. m \<in> set (ms r s') \<and> x = group1 m"
proof (induction r s rule: findall.induct)
  case (1 r s)
  show ?case
  proof (cases "match_here r s")
    case None
    with 1 show ?thesis by (cases s) auto
  next
    case (Some m)
    then have mem: "m \<in> set (ms r s)" by (auto simp: match_here_def split: list.splits)
    show ?thesis
    proof (cases "x = group1 m")
      case True
      with mem show ?thesis by blast
    next
      case False
      with 1 Some show ?thesis
        by (cases s; cases "length (fst m) < length s") (auto split: if_splits)
    qed
  qed
qed

lemma findall_acc:
  "x \<in> set (findall r s) \<Longrightarrow> \<exists>p cap. acc r p cap \<and> x = (case cap of None \<Rightarrow> [] | Some c \<Rightarrow> c)"
  using findall_captures ms_sound unfolding group1_def by blast


section \<open>Properties of the log\<close>

lemma files_say [simp]: "files (say m w) = files w"
  by (simp add: say_def)

lemma out_say [simp]: "out (say m w) = out w @ m"
  by (simp add: say_def)


lemma say_Nil [simp]: "say [] w = w"
  by (simp add: say_def)




section \<open>Dry run\<close>


section \<open>A site directory that is not there\<close>



section \<open>Exit code\<close>

text \<open>
  Claim C7. The exit code is 1 when the root is no directory. It is also 1 in a run whose
  root is a directory: \<^verbatim>\<open>download_file\<close> calls \<^verbatim>\<open>mkdir\<close> before its \<^verbatim>\<open>try\<close>, so when
  \<^verbatim>\<open>assets\<close> below the root is a regular file and an asset is missing, nothing catches the
  exception of \<^verbatim>\<open>mkdir\<close>.
\<close>

theorem C7_exit_1_with_root_present:
  "is_dir fs_assets_file [''srv'']
   \<and> find_missing_assets fs_assets_file [''srv''] = [''logo123.png'']
   \<and> fst (main \<lparr>arg_root = [''srv''], arg_dry_run = False\<rparr> (\<lambda>u. Body ''data'') fs_assets_file)
       = Uncaught (Mkdir_error [''srv'', ''assets''])
   \<and> exit_code (fst (main \<lparr>arg_root = [''srv''], arg_dry_run = False\<rparr> (\<lambda>u. Body ''data'') fs_assets_file)) = 1"
  by code_simp

section \<open>What the patterns capture\<close>

lemma acc_jpeg:
  "acc (cat [RLit ''jp'', ROpt (RLit ''e''), RLit ''g'']) p cap \<longleftrightarrow> (p = ''jpeg'' \<or> p = ''jpg'') \<and> cap = None"
  by auto

lemma acc_woff:
  "acc (cat [RLit ''woff'', ROpt (RLit ''2'')]) p cap \<longleftrightarrow> (p = ''woff2'' \<or> p = ''woff'') \<and> cap = None"
  by auto

lemma acc_asset_ext: "acc asset_ext p cap \<Longrightarrow> p \<in> set asset_exts \<and> cap = None"
  unfolding asset_ext_def asset_exts_def alts.simps acc.simps(7) acc_jpeg acc_woff
  by (elim disjE conjE) simp_all

lemma acc_asset_pattern:
  assumes "acc asset_pattern p cap"
  shows "\<exists>b e. cap = Some (b @ ''.'' @ e) \<and> b \<noteq> [] \<and> list_all asset_char b \<and> e \<in> set asset_exts"
proof -
  from assms obtain b e c where "cap = Some (b @ ''.'' @ e)" "b \<noteq> []" "list_all asset_char b"
    "acc asset_ext e c"
    unfolding asset_pattern_def by auto
  then show ?thesis using acc_asset_ext by blast
qed


lemma acc_pattern_url:
  "acc pattern_url p cap \<Longrightarrow> \<exists>i. cap = Some i \<and> i \<noteq> [] \<and> list_all id_char i"
  unfolding pattern_url_def by auto

lemma acc_pattern_local:
  "acc pattern_local p cap \<Longrightarrow> \<exists>i. cap = Some i \<and> i \<noteq> [] \<and> list_all id_char i"
  unfolding pattern_local_def by auto


lemma acc_static_import:
  "acc static_import p cap \<Longrightarrow>
     \<exists>ws q1 b q2. p = ''from'' @ ws @ [q1] @ ''./'' @ b @ ''.mjs'' @ [q2] \<and> ws \<noteq> [] \<and> list_all space_char ws
        \<and> quote_char q1 \<and> quote_char q2 \<and> b \<noteq> [] \<and> list_all not_quote b \<and> cap = Some (b @ ''.mjs'')"
  unfolding static_import_def by auto

lemma acc_dyn_import:
  "acc dyn_import p cap \<Longrightarrow>
     \<exists>b. b \<noteq> [] \<and> list_all not_quote b \<and> cap = Some (b @ ''.mjs'')"
  unfolding dyn_import_def by auto

section \<open>Names and paths\<close>

lemma split_on_plain: "d \<notin> set s \<Longrightarrow> split_on d s = [s]"
  by (induction s) auto

lemma parts_plain: "CHR ''/'' \<notin> set n \<Longrightarrow> n \<noteq> [] \<Longrightarrow> n \<noteq> ''.'' \<Longrightarrow> parts n = [n]"
  by (simp add: parts_def split_on_plain)

lemma pjoin_plain: "CHR ''/'' \<notin> set n \<Longrightarrow> n \<noteq> [] \<Longrightarrow> n \<noteq> ''.'' \<Longrightarrow> pjoin p n = p @ [n]"
  by (cases n) (auto simp: pjoin_def parts_plain)

lemma pjoin_relative: "n \<noteq> [] \<Longrightarrow> hd n \<noteq> CHR ''/'' \<Longrightarrow> pjoin p n = p @ parts n"
  by (cases n) (auto simp: pjoin_def)

lemma asset_char_no_slash: "asset_char c \<Longrightarrow> c \<noteq> CHR ''/''"
  by (auto simp: asset_char_def)

lemma id_char_no_slash: "id_char c \<Longrightarrow> c \<noteq> CHR ''/'' \<and> c \<noteq> CHR ''.''"
  by (auto simp: id_char_def)

lemma asset_exts_chars: "e \<in> set asset_exts \<Longrightarrow> list_all asset_char e \<and> e \<noteq> []"
  by (auto simp: asset_exts_def asset_char_def)

lemma asset_name_shape:
  assumes "n \<in> set (findall asset_pattern t)"
  shows "\<exists>b e. n = b @ ''.'' @ e \<and> b \<noteq> [] \<and> list_all asset_char b \<and> e \<in> set asset_exts"
proof -
  from findall_acc[OF assms] obtain p cap where
    a: "acc asset_pattern p cap" and x: "n = (case cap of None \<Rightarrow> [] | Some c \<Rightarrow> c)" by blast
  from acc_asset_pattern[OF a] obtain b e where
    "cap = Some (b @ ''.'' @ e)" "b \<noteq> []" "list_all asset_char b" "e \<in> set asset_exts" by blast
  with x show ?thesis by (intro exI[of _ b] exI[of _ e]) simp
qed

lemma asset_name_plain:
  assumes "n \<in> set (findall asset_pattern t)"
  shows "list_all asset_char n \<and> CHR ''/'' \<notin> set n \<and> n \<noteq> [] \<and> n \<noteq> ''.'' \<and> n \<noteq> ''..''"
proof -
  from asset_name_shape[OF assms] obtain b e where
    n: "n = b @ ''.'' @ e" and b: "b \<noteq> []" "list_all asset_char b" and e: "e \<in> set asset_exts" by blast
  from asset_exts_chars[OF e] have e': "list_all asset_char e" "e \<noteq> []" by auto
  have all: "list_all asset_char n" using n b e' by (simp add: asset_char_def)
  then have "CHR ''/'' \<notin> set n" using asset_char_no_slash by (auto simp: list_all_iff)
  moreover have "length n \<ge> 3" using n b e' by (cases b; cases e) auto
  ultimately show ?thesis using all by auto
qed

section \<open>Walking, sorting, scanning\<close>






lemma set_py_sorted [simp]: "set (py_sorted xs) = set xs"
  by (simp add: py_sorted_def)

lemma sorted_py_sorted [simp]: "sorted (py_sorted xs)"
  by (simp add: py_sorted_def)

lemma distinct_py_sorted [simp]: "distinct (py_sorted xs)"
  by (simp add: py_sorted_def)



section \<open>Asset names\<close>

text \<open>
  Claim C10. Every name that the asset pattern captures consists of letters, digits,
  \<^verbatim>\<open>_\<close>, \<^verbatim>\<open>-\<close> and \<^verbatim>\<open>.\<close> only, so it holds no separator; it ends in a dot and one of the
  nine extensions after at least one character, so it is not \<^verbatim>\<open>..\<close>. The destination
  \<^verbatim>\<open>root / "assets" / name\<close> therefore is the entry \<open>name\<close> directly inside \<^verbatim>\<open>assets\<close> below
  the root.
\<close>

theorem C10_asset_names_plain:
  "n \<in> set (findall asset_pattern t) \<Longrightarrow>
     list_all asset_char n \<and> CHR ''/'' \<notin> set n \<and> n \<noteq> ''..''
     \<and> (\<exists>b e. n = b @ ''.'' @ e \<and> b \<noteq> [] \<and> e \<in> set asset_exts)
     \<and> asset_dest root n = root @ [''assets'', n]
     \<and> parent (asset_dest root n) = root @ [''assets'']"
proof -
  assume a: "n \<in> set (findall asset_pattern t)"
  from asset_name_plain[OF a] have p: "list_all asset_char n" "CHR ''/'' \<notin> set n" "n \<noteq> []"
    "n \<noteq> ''.''" "n \<noteq> ''..''" by auto
  have d: "asset_dest root n = root @ [''assets'', n]"
    using p by (simp add: asset_dest_def pjoin_plain)
  from asset_name_shape[OF a] have "\<exists>b e. n = b @ ''.'' @ e \<and> b \<noteq> [] \<and> e \<in> set asset_exts"
    by blast
  with p d show ?thesis by (simp add: parent_def butlast_append)
qed

theorem C10_witness:
  "''logo123.png'' \<in> set (findall asset_pattern ''<img src=https://framerusercontent.com/assets/logo123.png>'')
   \<and> CHR ''/'' \<notin> set ''logo123.png''
   \<and> asset_dest [''srv''] ''logo123.png'' = [''srv'', ''assets'', ''logo123.png'']"
proof -
  have h: "''logo123.png'' \<in> set (findall asset_pattern ''<img src=https://framerusercontent.com/assets/logo123.png>'')"
    by code_simp
  show ?thesis using h C10_asset_names_plain[OF h, of "[''srv'']"] by simp
qed

section \<open>Search indexes\<close>






end
